theory Spec2Isabelle
  imports Main
begin

section \<open>Data model\<close>

text \<open>
  Strings are Go strings read as byte sequences (\<open>char list\<close>). Every character the
  code compares against is ASCII, and the bytes of a multi-byte UTF-8 rune are never ASCII,
  so a scan by byte and a scan by rune agree on what the code looks for.
\<close>

text \<open>
  The errors the code returns: \<open>ErrMissingUser\<close> is the package variable of that name,
  \<open>ErrNoRows\<close> is \<open>sql.ErrNoRows\<close>, \<open>ErrUnknownPronoun\<close> is the value
  \<open>errors.New("unknown type found for pronoun")\<close> built in \<open>addContext\<close>, and
  \<open>StorageError\<close> is any other error of the database driver.
\<close>

datatype error = ErrMissingUser | ErrNoRows | ErrUnknownPronoun | StorageError string

text \<open>The only field of \<open>dt.User\<close> the code reads is the numeric identifier.\<close>

record User =
  ID :: nat

text \<open>
  Modelled from the spec: the package \<open>nlp\<close> (the type \<open>StructuredInput\<close>, its method
  \<open>Pronouns()\<close>, the classification constants and the table \<open>nlp.Pronouns\<close>) is
  missing. A StructuredInput holds four ordered category lists and the pronoun tokens found
  in the utterance, in the order the classifier produced them; \<open>Pronouns()\<close> returns
  those tokens. The four lists are separate values: no two of them share storage.
\<close>

record StructuredInput =
  Objects :: "string list"
  Actors :: "string list"
  Times :: "string list"
  Places :: "string list"
  Pronouns :: "string list"

text \<open>
  Modelled from the spec: the classification a pronoun is mapped to. The table
  \<open>nlp.Pronouns\<close> is a Go map read with \<open>nlp.Pronouns[w]\<close>; a token that is absent, or
  that carries a tag other than the four below, reaches the \<open>default\<close> branch of the
  switch, and is \<open>None\<close> here. The table itself is a parameter of \<open>addContext\<close>.
\<close>

datatype category = ObjectI | ActorI | TimeI | PlaceI

type_synonym pronoun_table = "string \<Rightarrow> category option"

text \<open>
  The fields of \<open>Msg\<close> that \<open>addContext\<close> and \<open>ExtractCities\<close> read. \<open>User\<close> is a
  pointer in the source and may be nil. \<open>StructuredInput\<close> is a pointer as well; the
  functions below are about messages that carry one.
\<close>

record Msg =
  Sentence :: string
  User :: "User option"
  StructuredInput :: StructuredInput
  Stems :: "string list"

text \<open>One row of the table \<open>inputs\<close>: a prior turn of a user.\<close>

record input_row =
  userid :: nat
  objects :: "string list"
  actors :: "string list"
  times :: "string list"
  places :: "string list"

text \<open>One row of the table \<open>cities\<close>, scanned into \<open>dt.City\<close>.\<close>

record City =
  Name :: string
  CountryCode :: string

text \<open>
  The database behind the handle \<open>db\<close>: the rows of the two tables the code reads, and
  the failures its driver may report, one for each call that can fail (\<open>db.Get\<close>,
  \<open>db.Query\<close>, \<open>rows.Scan\<close>, \<open>rows.Close\<close>).
\<close>

record DB =
  inputs :: "input_row list"
  cities :: "City list"
  get_fault :: "error option"
  query_fault :: "error option"
  scan_fault :: "error option"
  close_fault :: "error option"

text \<open>
  A query issued against \<open>inputs\<close>: the column interpolated into the statement and the
  user identifier bound to \<open>$1\<close>. The trace is the list of the queries issued so far.
\<close>

type_synonym query = "string \<times> nat"
type_synonym trace = "query list"

section \<open>The historical context store accessor\<close>

definition select_column :: "string \<Rightarrow> (input_row \<Rightarrow> string list) option" where
  "select_column datatype =
     (if datatype = ''objects'' then Some objects
      else if datatype = ''actors'' then Some actors
      else if datatype = ''times'' then Some times
      else if datatype = ''places'' then Some places
      else None)"

text \<open>
  \<open>db.Get\<close> on the statement
  \<^verbatim>\<open>SELECT <datatype> FROM inputs WHERE userid=$1 AND array_length(objects, 1) > 0\<close>:
  it scans the first row of the result, and reports \<open>sql.ErrNoRows\<close> when the result is
  empty (the case \<open>GetLastRoute\<close> tests for in the same file). The statement orders
  nothing, so the first row is the first in storage order.
\<close>

definition db_Get :: "DB \<Rightarrow> string \<Rightarrow> nat \<Rightarrow> error + string list" where
  "db_Get db datatype uid =
     (case get_fault db of
        Some err \<Rightarrow> Inl err
      | None \<Rightarrow>
          (case select_column datatype of
             None \<Rightarrow> Inl (StorageError ''column does not exist'')
           | Some col \<Rightarrow>
               (case filter (\<lambda>r. userid r = uid \<and> objects r \<noteq> []) (inputs db) of
                  [] \<Rightarrow> Inl ErrNoRows
                | r # _ \<Rightarrow> Inr (col r))))"

text \<open>
  Modelled from the spec: \<open>StringSlice.Last\<close> of the missing package \<open>nlp\<close> returns the
  last element of the sequence, and the empty string when the sequence is empty.
\<close>

definition Last :: "string list \<Rightarrow> string" where
  "Last s = (if s = [] then [] else last s)"

definition getContextObject ::
  "DB \<Rightarrow> User option \<Rightarrow> StructuredInput \<Rightarrow> string \<Rightarrow> trace \<Rightarrow> (error + string) \<times> trace" where
  "getContextObject db u si datatype tr =
     (case u of
        None \<Rightarrow> (Inl ErrMissingUser, tr)
      | Some usr \<Rightarrow>
          (case db_Get db datatype (ID usr) of
             Inl err \<Rightarrow> (Inl err, tr @ [(datatype, ID usr)])
           | Inr tmp \<Rightarrow> (Inr (Last tmp), tr @ [(datatype, ID usr)])))"

section \<open>The anaphora resolver\<close>

text \<open>
  The inner loop \<^verbatim>\<open>for i, o := range xs { if o != w { continue }; xs[i] = ctx }\<close>,
  run over the indices of the slice.
\<close>

fun replace_at :: "string \<Rightarrow> string \<Rightarrow> nat list \<Rightarrow> string list \<Rightarrow> string list" where
  "replace_at w ctx [] xs = xs"
| "replace_at w ctx (i # is) xs =
     replace_at w ctx is (if xs ! i \<noteq> w then xs else xs[i := ctx])"

definition rewrite :: "string \<Rightarrow> string \<Rightarrow> string list \<Rightarrow> string list" where
  "rewrite w ctx xs = replace_at w ctx [0..<length xs] xs"

text \<open>
  The loop of \<open>addContext\<close> over the pronouns still to be processed. Every \<open>return\<close> of
  the source is a result here; the error is \<open>None\<close> for \<open>nil\<close>.
\<close>

fun addContext_loop ::
  "pronoun_table \<Rightarrow> DB \<Rightarrow> string list \<Rightarrow> Msg \<Rightarrow> trace \<Rightarrow> (Msg \<times> error option) \<times> trace" where
  "addContext_loop P db [] m tr = ((m, None), tr)"
| "addContext_loop P db (w # ws) m tr =
     (case P w of
        Some ObjectI \<Rightarrow>
          (case getContextObject db (User m) (StructuredInput m) ''objects'' tr of
             (Inl err, tr') \<Rightarrow> ((m, Some err), tr')
           | (Inr ctx, tr') \<Rightarrow>
               if ctx = [] then ((m, None), tr')
               else addContext_loop P db ws
                 (m\<lparr>StructuredInput := (StructuredInput m)
                    \<lparr>Objects := rewrite w ctx (Objects (StructuredInput m))\<rparr>\<rparr>) tr')
      | Some ActorI \<Rightarrow>
          (case getContextObject db (User m) (StructuredInput m) ''actors'' tr of
             (Inl err, tr') \<Rightarrow> ((m, Some err), tr')
           | (Inr ctx, tr') \<Rightarrow>
               if ctx = [] then ((m, None), tr')
               else addContext_loop P db ws
                 (m\<lparr>StructuredInput := (StructuredInput m)
                    \<lparr>Actors := rewrite w ctx (Actors (StructuredInput m))\<rparr>\<rparr>) tr')
      | Some TimeI \<Rightarrow>
          (case getContextObject db (User m) (StructuredInput m) ''times'' tr of
             (Inl err, tr') \<Rightarrow> ((m, Some err), tr')
           | (Inr ctx, tr') \<Rightarrow>
               if ctx = [] then ((m, None), tr')
               else addContext_loop P db ws
                 (m\<lparr>StructuredInput := (StructuredInput m)
                    \<lparr>Times := rewrite w ctx (Times (StructuredInput m))\<rparr>\<rparr>) tr')
      | Some PlaceI \<Rightarrow>
          (case getContextObject db (User m) (StructuredInput m) ''places'' tr of
             (Inl err, tr') \<Rightarrow> ((m, Some err), tr')
           | (Inr ctx, tr') \<Rightarrow>
               if ctx = [] then ((m, None), tr')
               else addContext_loop P db ws
                 (m\<lparr>StructuredInput := (StructuredInput m)
                    \<lparr>Places := rewrite w ctx (Places (StructuredInput m))\<rparr>\<rparr>) tr')
      | None \<Rightarrow> ((m, Some ErrUnknownPronoun), tr))"

text \<open>
  \<open>addContext\<close>: the range expression \<open>m.StructuredInput.Pronouns()\<close> is evaluated once,
  before the first iteration.
\<close>

definition addContext ::
  "pronoun_table \<Rightarrow> DB \<Rightarrow> Msg \<Rightarrow> trace \<Rightarrow> (Msg \<times> error option) \<times> trace" where
  "addContext P db m tr = addContext_loop P db (Pronouns (StructuredInput m)) m tr"

section \<open>The tokenizer\<close>

text \<open>
  \<open>strings.Fields\<close> and \<open>strings.ToLower\<close> of the Go standard library, on ASCII text:
  \<open>Fields\<close> splits around each run of white space (tab, line feed, vertical tab, form
  feed, carriage return, space) and returns no empty field; \<open>ToLower\<close> maps the letters
  \<open>A\<close> to \<open>Z\<close> to \<open>a\<close> to \<open>z\<close> and leaves every other byte as it is. Outside
  ASCII the library does more (it splits on Unicode white space and lower-cases Unicode
  letters): the two definitions agree with it on ASCII text only.
\<close>

definition isSpace :: "char \<Rightarrow> bool" where
  "isSpace c = (let n = (of_char c :: nat) in (9 \<le> n \<and> n \<le> 13) \<or> n = 32)"

fun fields_from :: "string \<Rightarrow> string \<Rightarrow> string list" where
  "fields_from cur [] = (if cur = [] then [] else [cur])"
| "fields_from cur (c # cs) =
     (if isSpace c then (if cur = [] then fields_from [] cs else cur # fields_from [] cs)
      else fields_from (cur @ [c]) cs)"

definition Fields :: "string \<Rightarrow> string list" where
  "Fields s = fields_from [] s"

definition lower_char :: "char \<Rightarrow> char" where
  "lower_char c =
     (let n = (of_char c :: nat) in if 65 \<le> n \<and> n \<le> 90 then char_of (n + 32) else c)"

definition ToLower :: "string \<Rightarrow> string" where
  "ToLower s = map lower_char s"

text \<open>
  The runes of the \<open>switch\<close> in \<open>SentenceFields\<close>: apostrophe, double quote, comma, full
  stop, colon, semicolon, exclamation mark, question mark.
\<close>

definition isMark :: "char \<Rightarrow> bool" where
  "isMark r = (r = CHR 0x27 \<or> r = CHR 0x22 \<or> r = CHR '','' \<or> r = CHR ''.''
     \<or> r = CHR '':'' \<or> r = CHR '';'' \<or> r = CHR ''!'' \<or> r = CHR ''?'')"

text \<open>
  The inner loop over the runes of one word: it sets \<open>end\<close> and appends each mark to
  \<open>ret\<close> as a string of its own.
\<close>

fun scan_word :: "string \<Rightarrow> bool \<Rightarrow> string list \<Rightarrow> bool \<times> string list" where
  "scan_word [] end ret = (end, ret)"
| "scan_word (r # rs) end ret =
     (if isMark r then scan_word rs True (ret @ [[r]]) else scan_word rs end ret)"

text \<open>
  The outer loop over the fields. \<open>w[:len(w)-1]\<close> drops the last byte of the word; a word
  in which a mark was found is not empty.
\<close>

fun SentenceFields_loop :: "string list \<Rightarrow> string list \<Rightarrow> string list" where
  "SentenceFields_loop [] ret = ret"
| "SentenceFields_loop (w # ws) ret =
     (case scan_word w False ret of
        (end, ret') \<Rightarrow>
          SentenceFields_loop ws
            (if end then ret' @ [ToLower (take (length w - 1) w)] else ret' @ [ToLower w]))"

definition SentenceFields :: "string \<Rightarrow> string list" where
  "SentenceFields s = SentenceFields_loop (Fields s) []"

section \<open>The gazetteer entity matcher\<close>

text \<open>
  The first loop of \<open>ExtractCities\<close>, over the indices of \<open>in.Stems\<close>. In Go a
  \<open>break\<close> inside a \<open>switch\<close> leaves the switch, not the enclosing \<open>for\<close>: the loop
  goes on to the last index, and every matching stem assigns \<open>start\<close> again.
\<close>

fun scan_stems :: "string list \<Rightarrow> nat list \<Rightarrow> nat \<Rightarrow> nat" where
  "scan_stems stems [] start = start"
| "scan_stems stems (i # is) start =
     scan_stems stems is
       (if stems ! i = ''at'' \<or> stems ! i = ''in'' \<or> stems ! i = ''on'' then i else start)"

definition start_index :: "string list \<Rightarrow> nat" where
  "start_index stems = scan_stems stems [0..<length stems] 0"

text \<open>
  \<open>regexNonWords.ReplaceAllString(in.Sentence, "")\<close> with the pattern \<open>[^\w\s]\<close>: it keeps
  the word characters (digits, letters, underscore) and the white space of the regular
  expression syntax (tab, line feed, form feed, carriage return, space), and deletes
  everything else.
\<close>

definition isWordChar :: "char \<Rightarrow> bool" where
  "isWordChar c =
     (let n = (of_char c :: nat)
      in (48 \<le> n \<and> n \<le> 57) \<or> (65 \<le> n \<and> n \<le> 90) \<or> n = 95 \<or> (97 \<le> n \<and> n \<le> 122))"

definition isRegexSpace :: "char \<Rightarrow> bool" where
  "isRegexSpace c =
     (let n = (of_char c :: nat) in n = 9 \<or> n = 10 \<or> n = 12 \<or> n = 13 \<or> n = 32)"

definition strip_non_words :: "string \<Rightarrow> string" where
  "strip_non_words s = filter (\<lambda>c. isWordChar c \<or> isRegexSpace c) s"

text \<open>
  \<open>bigrams\<close>: the loop runs while \<open>i < len(words)-1\<close>. On an empty slice the bound is
  \<open>-1\<close> in Go and \<open>0\<close> here; the loop body runs in neither case.
\<close>

definition bigrams :: "string list \<Rightarrow> nat \<Rightarrow> string list" where
  "bigrams words startIndex =
     map (\<lambda>i. words ! i @ '' '' @ words ! (i + 1)) [startIndex..<length words - 1]"

text \<open>The arguments of the query: the words from \<open>start\<close> on, then the bigrams.\<close>

definition candidates :: "Msg \<Rightarrow> string list" where
  "candidates m =
     (let start = start_index (Stems m);
          words = Fields (strip_non_words (Sentence m))
      in map (\<lambda>i. words ! i) [start..<length words] @ bigrams words start)"

text \<open>
  \<open>db.Query\<close> on the statement
  \<^verbatim>\<open>SELECT name, countrycode FROM cities WHERE countrycode='US' AND name IN (?)
  ORDER BY LENGTH(name) DESC\<close>.
  Rows whose names have the same length keep their storage order. When \<open>args\<close> is
  empty, \<open>sqlx.In\<close> reports an error, which the code overwrites with the result of
  \<open>db.Query\<close>, and the statement sent is empty: the driver answers it with no row.
\<close>

definition db_Query :: "DB \<Rightarrow> string list \<Rightarrow> error + City list" where
  "db_Query db args =
     (case query_fault db of
        Some err \<Rightarrow> Inl err
      | None \<Rightarrow>
          Inr (sort_key (\<lambda>c. - int (length (Name c)))
                (filter (\<lambda>c. CountryCode c = ''US'' \<and> List.member args (Name c))
                   (cities db))))"

text \<open>The loop \<open>for rows.Next()\<close>: each row is scanned, and a failed scan returns.\<close>

fun scan_rows :: "DB \<Rightarrow> City list \<Rightarrow> City list \<Rightarrow> error + City list" where
  "scan_rows db [] cs = Inr cs"
| "scan_rows db (row # rows) cs =
     (case scan_fault db of
        Some err \<Rightarrow> Inl err
      | None \<Rightarrow> scan_rows db rows (cs @ [row]))"

definition ExtractCities :: "DB \<Rightarrow> Msg \<Rightarrow> error + City list" where
  "ExtractCities db m =
     (case db_Query db (candidates m) of
        Inl err \<Rightarrow> Inl err
      | Inr rows \<Rightarrow>
          (case scan_rows db rows [] of
             Inl err \<Rightarrow> Inl err
           | Inr cs \<Rightarrow>
               (case close_fault db of
                  Some err \<Rightarrow> Inl err
                | None \<Rightarrow> Inr cs)))"

section \<open>Notions used to state the properties\<close>

text \<open>The column name \<open>addContext\<close> passes to \<open>getContextObject\<close> for a category.\<close>

definition column_of :: "category \<Rightarrow> string" where
  "column_of c = (case c of ObjectI \<Rightarrow> ''objects'' | ActorI \<Rightarrow> ''actors''
     | TimeI \<Rightarrow> ''times'' | PlaceI \<Rightarrow> ''places'')"

definition category_list :: "category \<Rightarrow> StructuredInput \<Rightarrow> string list" where
  "category_list c si = (case c of ObjectI \<Rightarrow> Objects si | ActorI \<Rightarrow> Actors si
     | TimeI \<Rightarrow> Times si | PlaceI \<Rightarrow> Places si)"

definition update_category ::
  "category \<Rightarrow> (string list \<Rightarrow> string list) \<Rightarrow> StructuredInput \<Rightarrow> StructuredInput" where
  "update_category c f si = (case c of
       ObjectI \<Rightarrow> si\<lparr>Objects := f (Objects si)\<rparr>
     | ActorI \<Rightarrow> si\<lparr>Actors := f (Actors si)\<rparr>
     | TimeI \<Rightarrow> si\<lparr>Times := f (Times si)\<rparr>
     | PlaceI \<Rightarrow> si\<lparr>Places := f (Places si)\<rparr>)"

text \<open>
  A pronoun resolves when the table gives it a category and the lookup for that category
  returns an antecedent that is not empty: the iteration for it ends without a
  \<open>return\<close>.
\<close>

definition resolves :: "pronoun_table \<Rightarrow> DB \<Rightarrow> Msg \<Rightarrow> string \<Rightarrow> bool" where
  "resolves P db m w =
     (case P w of
        None \<Rightarrow> False
      | Some c \<Rightarrow>
          (case fst (getContextObject db (User m) (StructuredInput m) (column_of c) []) of
             Inl err \<Rightarrow> False
           | Inr ctx \<Rightarrow> ctx \<noteq> []))"

text \<open>
  The starting index as the specification words it: the index of the first stem that is
  one of the three prepositions, and 0 when there is none.
\<close>

definition spec_start_index :: "string list \<Rightarrow> nat" where
  "spec_start_index stems =
     (let k = length (takeWhile (\<lambda>s. s \<noteq> ''at'' \<and> s \<noteq> ''in'' \<and> s \<noteq> ''on'') stems)
      in if k < length stems then k else 0)"

section \<open>Concrete inputs\<close>

text \<open>
  A pronoun table, a database and messages on which the definitions are run. User 1 has one
  prior turn with an object, an actor and a place, and no time; user 2 has no turn with an
  object.
\<close>

definition example_table :: pronoun_table where
  "example_table =
     map_of [(''it'', ObjectI), (''him'', ActorI), (''then'', TimeI), (''there'', PlaceI)]"

definition example_db :: DB where
  "example_db =
     \<lparr>inputs =
        [\<lparr>userid = 2, objects = [], actors = [''alice''], times = [''noon''], places = []\<rparr>,
         \<lparr>userid = 1, objects = [''the red shirt''], actors = [''bob''], times = [],
          places = [''paris'']\<rparr>],
      cities =
        [\<lparr>Name = ''York'', CountryCode = ''US''\<rparr>,
         \<lparr>Name = ''Paris'', CountryCode = ''US''\<rparr>,
         \<lparr>Name = ''New York'', CountryCode = ''US''\<rparr>,
         \<lparr>Name = ''Paris'', CountryCode = ''FR''\<rparr>],
      get_fault = None, query_fault = None, scan_fault = None, close_fault = None\<rparr>"

definition example_si :: "string list \<Rightarrow> StructuredInput" where
  "example_si ps =
     \<lparr>Objects = [''it'', ''price'', ''it''], Actors = [''him''], Times = [''then''],
      Places = [''there''], Pronouns = ps\<rparr>"

definition example_msg :: "User option \<Rightarrow> string list \<Rightarrow> Msg" where
  "example_msg u ps =
     \<lparr>Sentence = ''how much is it'', User = u, StructuredInput = example_si ps,
      Stems = [''how'', ''much'', ''is'', ''it'']\<rparr>"

text \<open>
  The message built from \<open>in Paris on Monday\<close>: its words, and the stems the stemmer
  gives for them.
\<close>

definition example_trip :: Msg where
  "example_trip =
     \<lparr>Sentence = ''in Paris on Monday'', User = None, StructuredInput = example_si [],
      Stems = [''in'', ''pari'', ''on'', ''monday'']\<rparr>"

section \<open>Properties of the resolver's building blocks\<close>

lemma replace_at_upt:
  "k \<le> length xs \<Longrightarrow>
   replace_at w ctx [k..<length xs] xs =
     take k xs @ map (\<lambda>x. if x = w then ctx else x) (drop k xs)"
proof (induction "length xs - k" arbitrary: k xs)
  case 0
  then show ?case by simp
next
  case (Suc d)
  then have lt: "k < length xs" by simp
  let ?ys = "if xs ! k \<noteq> w then xs else xs[k := ctx]"
  have len: "length ?ys = length xs" by simp
  have "d = length ?ys - Suc k" using Suc.hyps(2) unfolding len by arith
  moreover have "Suc k \<le> length ?ys" using lt unfolding len by arith
  ultimately have ih: "replace_at w ctx [Suc k..<length ?ys] ?ys =
     take (Suc k) ?ys @ map (\<lambda>x. if x = w then ctx else x) (drop (Suc k) ?ys)"
    by (rule Suc.hyps(1))
  have upt: "[k..<length xs] = k # [Suc k..<length xs]"
    using lt by (simp add: upt_conv_Cons)
  have tk: "take (Suc k) ?ys = take k xs @ [if xs ! k = w then ctx else xs ! k]"
    using lt by (simp add: take_Suc_conv_app_nth)
  have dr: "drop (Suc k) ?ys = drop (Suc k) xs" by simp
  have dk: "drop k xs = xs ! k # drop (Suc k) xs"
    using lt by (simp add: Cons_nth_drop_Suc)
  have "replace_at w ctx [k..<length xs] xs = replace_at w ctx [Suc k..<length ?ys] ?ys"
    unfolding upt by (simp del: upt_Suc)
  also note ih
  finally show ?case unfolding tk dr dk by simp
qed

lemma rewrite_map: "rewrite w ctx xs = map (\<lambda>x. if x = w then ctx else x) xs"
  using replace_at_upt [of 0 xs w ctx] by (simp add: rewrite_def)

lemma length_rewrite: "length (rewrite w ctx xs) = length xs"
  by (simp add: rewrite_map)

lemma fst_getContextObject:
  "fst (getContextObject db u si dt tr) = fst (getContextObject db u si' dt tr')"
  by (simp add: getContextObject_def split: option.splits sum.splits)

lemma resolves_cong:
  "User m' = User m \<Longrightarrow> resolves P db m' w = resolves P db m w"
  unfolding resolves_def
  using fst_getContextObject [of db "User m" "StructuredInput m'" _ "[]" "StructuredInput m" "[]"]
  by (simp split: option.splits)

lemma addContext_loop_Cons_resolved:
  assumes "P w = Some c"
    and "getContextObject db (User m) (StructuredInput m) (column_of c) tr = (Inr ctx, tr')"
    and "ctx \<noteq> []"
  shows "addContext_loop P db (w # ws) m tr =
     addContext_loop P db ws
       (m\<lparr>StructuredInput := update_category c (rewrite w ctx) (StructuredInput m)\<rparr>) tr'"
  using assms by (cases c) (simp_all add: column_of_def update_category_def)

lemma addContext_loop_Cons_empty:
  assumes "P w = Some c"
    and "getContextObject db (User m) (StructuredInput m) (column_of c) tr = (Inr [], tr')"
  shows "addContext_loop P db (w # ws) m tr = ((m, None), tr')"
  using assms by (cases c) (simp_all add: column_of_def)

lemma addContext_loop_Cons_error:
  assumes "P w = Some c"
    and "getContextObject db (User m) (StructuredInput m) (column_of c) tr = (Inl err, tr')"
  shows "addContext_loop P db (w # ws) m tr = ((m, Some err), tr')"
  using assms by (cases c) (simp_all add: column_of_def)

lemma resolvesE:
  assumes "resolves P db m w"
  obtains c ctx tr' where "P w = Some c"
    and "getContextObject db (User m) (StructuredInput m) (column_of c) tr = (Inr ctx, tr')"
    and "ctx \<noteq> []"
proof -
  from assms obtain c where c: "P w = Some c"
    by (auto simp: resolves_def split: option.splits)
  with assms obtain ctx where
    f: "fst (getContextObject db (User m) (StructuredInput m) (column_of c) []) = Inr ctx"
    and ne: "ctx \<noteq> []"
    by (auto simp: resolves_def split: sum.splits)
  have "fst (getContextObject db (User m) (StructuredInput m) (column_of c) tr) = Inr ctx"
    using f fst_getContextObject [of db "User m" "StructuredInput m" "column_of c" tr
        "StructuredInput m" "[]"] by simp
  then have "getContextObject db (User m) (StructuredInput m) (column_of c) tr =
      (Inr ctx, snd (getContextObject db (User m) (StructuredInput m) (column_of c) tr))"
    by (metis prod.collapse)
  with c ne that show thesis by blast
qed

text \<open>
  When every pronoun of a prefix resolves, the loop runs through the prefix without
  returning and goes on with the rest from the message and the trace it has reached.
\<close>

lemma addContext_loop_append:
  "list_all (resolves P db m) ws1 \<Longrightarrow>
   addContext_loop P db (ws1 @ ws2) m tr =
     addContext_loop P db ws2 (fst (fst (addContext_loop P db ws1 m tr)))
       (snd (addContext_loop P db ws1 m tr))
   \<and> snd (fst (addContext_loop P db ws1 m tr)) = None
   \<and> User (fst (fst (addContext_loop P db ws1 m tr))) = User m"
proof (induction ws1 arbitrary: m tr)
  case Nil
  then show ?case by simp
next
  case (Cons w ws1)
  from Cons.prems have rw: "resolves P db m w" and rest: "list_all (resolves P db m) ws1"
    by simp_all
  from rw obtain c ctx tr' where c: "P w = Some c"
    and g: "getContextObject db (User m) (StructuredInput m) (column_of c) tr = (Inr ctx, tr')"
    and ne: "ctx \<noteq> []"
    by (rule resolvesE)
  let ?m = "m\<lparr>StructuredInput := update_category c (rewrite w ctx) (StructuredInput m)\<rparr>"
  have "list_all (resolves P db ?m) ws1"
    using rest resolves_cong [of ?m m P db] by (simp add: list_all_iff)
  then have ih: "addContext_loop P db (ws1 @ ws2) ?m tr' =
     addContext_loop P db ws2 (fst (fst (addContext_loop P db ws1 ?m tr')))
       (snd (addContext_loop P db ws1 ?m tr'))
   \<and> snd (fst (addContext_loop P db ws1 ?m tr')) = None
   \<and> User (fst (fst (addContext_loop P db ws1 ?m tr'))) = User ?m"
    by (rule Cons.IH)
  have s1: "addContext_loop P db (w # ws1 @ ws2) m tr = addContext_loop P db (ws1 @ ws2) ?m tr'"
    using c g ne by (rule addContext_loop_Cons_resolved)
  have s2: "addContext_loop P db (w # ws1) m tr = addContext_loop P db ws1 ?m tr'"
    using c g ne by (rule addContext_loop_Cons_resolved)
  show ?case using ih by (simp only: append_Cons s1 s2) simp
qed

lemma addContext_loop_lengths:
  "length (Objects (StructuredInput (fst (fst (addContext_loop P db ws m tr))))) =
     length (Objects (StructuredInput m))
   \<and> length (Actors (StructuredInput (fst (fst (addContext_loop P db ws m tr))))) =
     length (Actors (StructuredInput m))
   \<and> length (Times (StructuredInput (fst (fst (addContext_loop P db ws m tr))))) =
     length (Times (StructuredInput m))
   \<and> length (Places (StructuredInput (fst (fst (addContext_loop P db ws m tr))))) =
     length (Places (StructuredInput m))"
proof (induction ws arbitrary: m tr)
  case Nil
  then show ?case by simp
next
  case (Cons w ws)
  show ?case
  proof (cases "P w")
    case None
    then show ?thesis by simp
  next
    case (Some c)
    obtain r tr' where g:
      "getContextObject db (User m) (StructuredInput m) (column_of c) tr = (r, tr')"
      by (cases "getContextObject db (User m) (StructuredInput m) (column_of c) tr")
    show ?thesis
    proof (cases r)
      case (Inl err)
      have stop: "addContext_loop P db (w # ws) m tr = ((m, Some err), tr')"
        using Some g [unfolded Inl] by (rule addContext_loop_Cons_error)
      show ?thesis unfolding stop by simp
    next
      case (Inr ctx)
      show ?thesis
      proof (cases "ctx = []")
        case True
        have stop: "addContext_loop P db (w # ws) m tr = ((m, None), tr')"
          using Some g [unfolded Inr True] by (rule addContext_loop_Cons_empty)
        show ?thesis unfolding stop by simp
      next
        case False
        let ?m = "m\<lparr>StructuredInput :=
          update_category c (rewrite w ctx) (StructuredInput m)\<rparr>"
        have step: "addContext_loop P db (w # ws) m tr = addContext_loop P db ws ?m tr'"
          using Some g [unfolded Inr] False by (rule addContext_loop_Cons_resolved)
        have same: "length (Objects (StructuredInput ?m)) = length (Objects (StructuredInput m))
          \<and> length (Actors (StructuredInput ?m)) = length (Actors (StructuredInput m))
          \<and> length (Times (StructuredInput ?m)) = length (Times (StructuredInput m))
          \<and> length (Places (StructuredInput ?m)) = length (Places (StructuredInput m))"
          by (cases c) (simp_all add: update_category_def length_rewrite)
        show ?thesis unfolding step using Cons.IH [of ?m tr'] same by simp
      qed
    qed
  qed
qed

lemma addContext_loop_no_user:
  "User m = None \<Longrightarrow> snd (addContext_loop P db ws m tr) = tr"
  by (cases ws)
     (auto simp: getContextObject_def split: option.splits category.splits)

lemmas example_defs =
  example_table_def example_db_def example_msg_def example_si_def
  addContext_def getContextObject_def db_Get_def select_column_def Last_def rewrite_def
  resolves_def column_of_def category_list_def update_category_def

section \<open>Resolution without pronouns\<close>

text \<open>
  Claim C7. For every StructuredInput whose pronoun set is empty, \<open>addContext\<close> returns
  the message, and so its StructuredInput, unchanged and reports no error; it issues no
  query either.
\<close>

theorem addContext_no_pronouns:
  "Pronouns (StructuredInput m) = [] \<Longrightarrow> addContext P db m tr = ((m, None), tr)"
  by (simp add: addContext_def)

theorem addContext_no_pronouns_witness:
  "addContext example_table example_db (example_msg None []) [] =
     ((example_msg None [], None), [])"
  using addContext_no_pronouns [of "example_msg None []" example_table example_db "[]"]
  by (simp add: example_msg_def example_si_def)

section \<open>The empty antecedent\<close>

text \<open>
  Claim C3. Let the pronouns before \<open>w\<close> all resolve, so that the pass reaches \<open>w\<close> with
  the message \<open>m1\<close>, which holds the rewrites made for them. If the table gives \<open>w\<close> a
  category and the lookup made for \<open>w\<close> yields the empty string, \<open>addContext\<close> returns
  \<open>m1\<close> and no error: nothing is rewritten for \<open>w\<close> nor for any later pronoun
  \<open>ws2\<close>, whatever these are.
\<close>

theorem addContext_empty_antecedent:
  assumes "Pronouns (StructuredInput m) = ws1 @ w # ws2"
    and "list_all (resolves P db m) ws1"
    and "addContext_loop P db ws1 m tr = ((m1, e1), tr1)"
    and "P w = Some c"
    and "fst (getContextObject db (User m1) (StructuredInput m1) (column_of c) tr1) = Inr []"
  shows "fst (addContext P db m tr) = (m1, None)"
proof -
  have run: "addContext_loop P db (ws1 @ w # ws2) m tr = addContext_loop P db (w # ws2) m1 tr1"
    using addContext_loop_append [OF assms(2), of "w # ws2" tr] assms(3) by simp
  obtain tr' where
    "getContextObject db (User m1) (StructuredInput m1) (column_of c) tr1 = (Inr [], tr')"
    using assms(5) by (metis prod.collapse)
  with assms(4) have "addContext_loop P db (w # ws2) m1 tr1 = ((m1, None), tr')"
    by (rule addContext_loop_Cons_empty)
  with run assms(1) show ?thesis by (simp add: addContext_def)
qed

theorem addContext_empty_antecedent_witness:
  "fst (addContext example_table example_db
          (example_msg (Some \<lparr>ID = 1\<rparr>) [''it'', ''then'', ''zzz'']) []) =
     ((example_msg (Some \<lparr>ID = 1\<rparr>) [''it'', ''then'', ''zzz''])
        \<lparr>StructuredInput := (example_si [''it'', ''then'', ''zzz''])
           \<lparr>Objects := [''the red shirt'', ''price'', ''the red shirt'']\<rparr>\<rparr>, None)"
proof (rule addContext_empty_antecedent [where ?ws1.0 = "[''it'']" and w = "''then''"
      and ?ws2.0 = "[''zzz'']" and c = TimeI and ?e1.0 = None
      and ?tr1.0 = "[(''objects'', 1)]"])
  show "Pronouns (StructuredInput (example_msg (Some \<lparr>ID = 1\<rparr>) [''it'', ''then'', ''zzz'']))
      = [''it''] @ ''then'' # [''zzz'']"
    by (simp add: example_defs)
  show "list_all (resolves example_table example_db
      (example_msg (Some \<lparr>ID = 1\<rparr>) [''it'', ''then'', ''zzz''])) [''it'']"
    by (simp add: example_defs)
  show "addContext_loop example_table example_db [''it'']
      (example_msg (Some \<lparr>ID = 1\<rparr>) [''it'', ''then'', ''zzz'']) [] =
     (((example_msg (Some \<lparr>ID = 1\<rparr>) [''it'', ''then'', ''zzz''])
        \<lparr>StructuredInput := (example_si [''it'', ''then'', ''zzz''])
           \<lparr>Objects := [''the red shirt'', ''price'', ''the red shirt'']\<rparr>\<rparr>, None),
      [(''objects'', 1)])"
    by (simp add: example_defs upt_rec)
  show "example_table ''then'' = Some TimeI"
    by (simp add: example_defs)
  show "fst (getContextObject example_db
      (User ((example_msg (Some \<lparr>ID = 1\<rparr>) [''it'', ''then'', ''zzz''])
        \<lparr>StructuredInput := (example_si [''it'', ''then'', ''zzz''])
           \<lparr>Objects := [''the red shirt'', ''price'', ''the red shirt'']\<rparr>\<rparr>))
      (StructuredInput ((example_msg (Some \<lparr>ID = 1\<rparr>) [''it'', ''then'', ''zzz''])
        \<lparr>StructuredInput := (example_si [''it'', ''then'', ''zzz''])
           \<lparr>Objects := [''the red shirt'', ''price'', ''the red shirt'']\<rparr>\<rparr>))
      (column_of TimeI) [(''objects'', 1)]) = Inr []"
    by (simp add: example_defs)
qed

section \<open>The unknown pronoun\<close>

text \<open>
  Claim C4, as amended. Let the pronouns before \<open>w\<close> all resolve, so that the pass reaches
  \<open>w\<close> with the message \<open>m1\<close>. If \<open>w\<close> is not in the pronoun table, \<open>addContext\<close>
  returns \<open>m1\<close>, the message as mutated so far, together with the error for an unknown
  pronoun, and issues no further query.
\<close>

theorem addContext_unknown_pronoun:
  assumes "Pronouns (StructuredInput m) = ws1 @ w # ws2"
    and "list_all (resolves P db m) ws1"
    and "addContext_loop P db ws1 m tr = ((m1, e1), tr1)"
    and "P w = None"
  shows "addContext P db m tr = ((m1, Some ErrUnknownPronoun), tr1)"
proof -
  have "addContext_loop P db (ws1 @ w # ws2) m tr = addContext_loop P db (w # ws2) m1 tr1"
    using addContext_loop_append [OF assms(2), of "w # ws2" tr] assms(3) by simp
  with assms(1,4) show ?thesis by (simp add: addContext_def)
qed

theorem addContext_unknown_pronoun_witness:
  "addContext example_table example_db (example_msg (Some \<lparr>ID = 1\<rparr>) [''it'', ''zzz'']) [] =
     (((example_msg (Some \<lparr>ID = 1\<rparr>) [''it'', ''zzz''])
        \<lparr>StructuredInput := (example_si [''it'', ''zzz''])
           \<lparr>Objects := [''the red shirt'', ''price'', ''the red shirt'']\<rparr>\<rparr>,
       Some ErrUnknownPronoun), [(''objects'', 1)])"
proof (rule addContext_unknown_pronoun [where ?ws1.0 = "[''it'']" and w = "''zzz''"
      and ?ws2.0 = "[]" and ?e1.0 = None])
  show "Pronouns (StructuredInput (example_msg (Some \<lparr>ID = 1\<rparr>) [''it'', ''zzz'']))
      = [''it''] @ ''zzz'' # []"
    by (simp add: example_defs)
  show "list_all (resolves example_table example_db
      (example_msg (Some \<lparr>ID = 1\<rparr>) [''it'', ''zzz''])) [''it'']"
    by (simp add: example_defs)
  show "addContext_loop example_table example_db [''it'']
      (example_msg (Some \<lparr>ID = 1\<rparr>) [''it'', ''zzz'']) [] =
     (((example_msg (Some \<lparr>ID = 1\<rparr>) [''it'', ''zzz''])
        \<lparr>StructuredInput := (example_si [''it'', ''zzz''])
           \<lparr>Objects := [''the red shirt'', ''price'', ''the red shirt'']\<rparr>\<rparr>, None),
      [(''objects'', 1)])"
    by (simp add: example_defs upt_rec)
  show "example_table ''zzz'' = None"
    by (simp add: example_defs)
qed

text \<open>
  The claim as stated, for every StructuredInput that contains a pronoun outside the
  table, does not hold: the pass stops without an error at an earlier pronoun whose
  antecedent is empty, and the unknown pronoun after it is never looked at.
\<close>

theorem addContext_unknown_pronoun_skipped:
  "example_table ''zzz'' = None
   \<and> ''zzz'' \<in> set (Pronouns (StructuredInput
         (example_msg (Some \<lparr>ID = 1\<rparr>) [''then'', ''zzz''])))
   \<and> addContext example_table example_db
        (example_msg (Some \<lparr>ID = 1\<rparr>) [''then'', ''zzz'']) [] =
       ((example_msg (Some \<lparr>ID = 1\<rparr>) [''then'', ''zzz''], None), [(''times'', 1)])"
  by (simp add: example_defs)

section \<open>The rewrite of one category\<close>

text \<open>
  Claim C6. Let the pronouns of the StructuredInput be \<open>ws1\<close>, then \<open>w\<close>, then \<open>ws2\<close>;
  let the pronouns \<open>ws1\<close> all resolve, so that the pass reaches \<open>w\<close> with the message
  \<open>m1\<close>, and let the lookup for the category \<open>c\<close> of \<open>w\<close> yield a non-empty antecedent
  \<open>ctx\<close>. Then \<open>addContext\<close> goes on to the later pronouns from the message \<open>m2\<close>, and
  returns \<open>m2\<close> without an error when \<open>w\<close> is the last pronoun. In \<open>m2\<close> the list of
  category \<open>c\<close> is that of \<open>m1\<close> with every element equal to \<open>w\<close> replaced by \<open>ctx\<close>
  and every other element kept; the lists of the other three categories and the pronouns
  are those of \<open>m1\<close>.
\<close>

theorem addContext_rewrites_category:
  assumes "Pronouns (StructuredInput m) = ws1 @ w # ws2"
    and "list_all (resolves P db m) ws1"
    and "addContext_loop P db ws1 m tr = ((m1, e1), tr1)"
    and "P w = Some c"
    and "getContextObject db (User m1) (StructuredInput m1) (column_of c) tr1 = (Inr ctx, tr2)"
    and "ctx \<noteq> []"
    and "m2 = m1\<lparr>StructuredInput :=
           update_category c (map (\<lambda>x. if x = w then ctx else x)) (StructuredInput m1)\<rparr>"
  shows "addContext P db m tr = addContext_loop P db ws2 m2 tr2
     \<and> (ws2 = [] \<longrightarrow> addContext P db m tr = ((m2, None), tr2))
     \<and> category_list c (StructuredInput m2) =
         map (\<lambda>x. if x = w then ctx else x) (category_list c (StructuredInput m1))
     \<and> (\<forall>c'. c' \<noteq> c \<longrightarrow>
          category_list c' (StructuredInput m2) = category_list c' (StructuredInput m1))
     \<and> Pronouns (StructuredInput m2) = Pronouns (StructuredInput m1)"
proof -
  have run: "addContext_loop P db (ws1 @ w # ws2) m tr = addContext_loop P db (w # ws2) m1 tr1"
    using addContext_loop_append [OF assms(2), of "w # ws2" tr] assms(3) by simp
  have "rewrite w ctx = map (\<lambda>x. if x = w then ctx else x)"
    by (rule ext) (rule rewrite_map)
  then have m2: "m2 = m1\<lparr>StructuredInput :=
      update_category c (rewrite w ctx) (StructuredInput m1)\<rparr>"
    using assms(7) by simp
  have "addContext_loop P db (w # ws2) m1 tr1 = addContext_loop P db ws2 m2 tr2"
    unfolding m2 using assms(4) assms(5) assms(6) by (rule addContext_loop_Cons_resolved)
  with run assms(1) have go: "addContext P db m tr = addContext_loop P db ws2 m2 tr2"
    by (simp add: addContext_def)
  then have fin: "ws2 = [] \<longrightarrow> addContext P db m tr = ((m2, None), tr2)"
    by simp
  have a: "category_list c (StructuredInput m2) =
       map (\<lambda>x. if x = w then ctx else x) (category_list c (StructuredInput m1))"
    unfolding assms(7) by (cases c) (simp_all add: category_list_def update_category_def)
  have b: "category_list c' (StructuredInput m2) = category_list c' (StructuredInput m1)"
    if "c' \<noteq> c" for c'
    using that unfolding assms(7)
    by (cases c; cases c') (simp_all add: category_list_def update_category_def)
  have d: "Pronouns (StructuredInput m2) = Pronouns (StructuredInput m1)"
    unfolding assms(7) by (cases c) (simp_all add: update_category_def)
  from go fin a b d show ?thesis by blast
qed

theorem addContext_rewrites_category_witness:
  "addContext example_table example_db (example_msg (Some \<lparr>ID = 1\<rparr>) [''it'', ''him'']) [] =
     (((example_msg (Some \<lparr>ID = 1\<rparr>) [''it'', ''him''])
         \<lparr>StructuredInput :=
            \<lparr>Objects = [''the red shirt'', ''price'', ''the red shirt''], Actors = [''bob''],
             Times = [''then''], Places = [''there''], Pronouns = [''it'', ''him'']\<rparr>\<rparr>,
       None),
      [(''objects'', 1), (''actors'', 1)])"
proof -
  let ?m = "example_msg (Some \<lparr>ID = 1\<rparr>) [''it'', ''him'']"
  let ?m1 = "?m\<lparr>StructuredInput := (example_si [''it'', ''him''])
      \<lparr>Objects := [''the red shirt'', ''price'', ''the red shirt'']\<rparr>\<rparr>"
  let ?m2 = "?m1\<lparr>StructuredInput :=
      update_category ActorI (map (\<lambda>x. if x = ''him'' then ''bob'' else x))
        (StructuredInput ?m1)\<rparr>"
  have h1: "Pronouns (StructuredInput ?m) = [''it''] @ ''him'' # []"
    by (simp add: example_msg_def example_si_def)
  have h2: "list_all (resolves example_table example_db ?m) [''it'']"
    by (simp add: example_defs)
  have h3: "addContext_loop example_table example_db [''it''] ?m [] =
      ((?m1, None), [(''objects'', 1)])"
    by (simp add: example_defs upt_rec)
  have h4: "example_table ''him'' = Some ActorI"
    by (simp add: example_table_def)
  have h5: "getContextObject example_db (User ?m1) (StructuredInput ?m1) (column_of ActorI)
      [(''objects'', 1)] = (Inr ''bob'', [(''objects'', 1), (''actors'', 1)])"
    by (simp add: example_defs)
  have h6: "''bob'' \<noteq> []"
    by simp
  have "addContext example_table example_db ?m [] =
      ((?m2, None), [(''objects'', 1), (''actors'', 1)])"
    using addContext_rewrites_category [OF h1 h2 h3 h4 h5 h6 refl] by blast
  then show ?thesis
    by (simp add: update_category_def example_msg_def example_si_def)
qed

section \<open>The missing user\<close>

text \<open>
  Claim C8. When the message carries no user and its first pronoun is in the table (with
  no user no later pronoun is ever reached), the lookup returns \<open>ErrMissingUser\<close> and
  \<open>addContext\<close> returns that error with the message unchanged; the trace of queries is
  unchanged: no query is issued.
\<close>

theorem addContext_missing_user:
  assumes "User m = None"
    and "Pronouns (StructuredInput m) = w # ws"
    and "P w = Some c"
  shows "addContext P db m tr = ((m, Some ErrMissingUser), tr)
     \<and> getContextObject db (User m) (StructuredInput m) (column_of c) tr =
         (Inl ErrMissingUser, tr)"
proof -
  have g: "getContextObject db (User m) (StructuredInput m) (column_of c) tr =
      (Inl ErrMissingUser, tr)"
    using assms(1) by (simp add: getContextObject_def)
  with assms(3) have "addContext_loop P db (w # ws) m tr = ((m, Some ErrMissingUser), tr)"
    by (rule addContext_loop_Cons_error)
  with g assms(2) show ?thesis by (simp add: addContext_def)
qed

theorem addContext_missing_user_witness:
  "addContext example_table example_db (example_msg None [''it'', ''him'']) [] =
     ((example_msg None [''it'', ''him''], Some ErrMissingUser), [])
   \<and> getContextObject example_db (User (example_msg None [''it'', ''him'']))
        (StructuredInput (example_msg None [''it'', ''him''])) (column_of ObjectI) [] =
       (Inl ErrMissingUser, [])"
proof (rule addContext_missing_user [where w = "''it''" and ws = "[''him'']"])
  show "User (example_msg None [''it'', ''him'']) = None"
    by (simp add: example_msg_def)
  show "Pronouns (StructuredInput (example_msg None [''it'', ''him''])) = ''it'' # [''him'']"
    by (simp add: example_msg_def example_si_def)
  show "example_table ''it'' = Some ObjectI"
    by (simp add: example_table_def)
qed

section \<open>The lengths of the category lists\<close>

text \<open>
  Claim C10. Whatever \<open>addContext\<close> returns, with or without an error, each of the four
  category lists of the returned message has the length it had in the message passed in.
\<close>

theorem addContext_preserves_lengths:
  "length (Objects (StructuredInput (fst (fst (addContext P db m tr))))) =
     length (Objects (StructuredInput m))
   \<and> length (Actors (StructuredInput (fst (fst (addContext P db m tr))))) =
     length (Actors (StructuredInput m))
   \<and> length (Times (StructuredInput (fst (fst (addContext P db m tr))))) =
     length (Times (StructuredInput m))
   \<and> length (Places (StructuredInput (fst (fst (addContext P db m tr))))) =
     length (Places (StructuredInput m))"
  unfolding addContext_def by (rule addContext_loop_lengths)

theorem addContext_preserves_lengths_witness:
  "length (Objects (StructuredInput (fst (fst (addContext example_table example_db
       (example_msg (Some \<lparr>ID = 1\<rparr>) [''it'', ''then'', ''zzz'']) []))))) = 3
   \<and> length (Actors (StructuredInput (fst (fst (addContext example_table example_db
       (example_msg (Some \<lparr>ID = 1\<rparr>) [''it'', ''then'', ''zzz'']) []))))) = 1
   \<and> length (Times (StructuredInput (fst (fst (addContext example_table example_db
       (example_msg (Some \<lparr>ID = 1\<rparr>) [''it'', ''then'', ''zzz'']) []))))) = 1
   \<and> length (Places (StructuredInput (fst (fst (addContext example_table example_db
       (example_msg (Some \<lparr>ID = 1\<rparr>) [''it'', ''then'', ''zzz'']) []))))) = 1"
  using addContext_preserves_lengths [of example_table example_db
      "example_msg (Some \<lparr>ID = 1\<rparr>) [''it'', ''then'', ''zzz'']" "[]"]
  by (simp add: example_msg_def example_si_def)

section \<open>A user without a qualifying turn\<close>

text \<open>
  Claim C1. The specification says that \<open>getContextObject\<close> returns the empty string and no
  error both when the user has no recorded turn whose Objects are non-empty and when the
  qualifying turn has an empty sequence in the requested category. The second holds: user
  1 has a qualifying turn without a time, and the lookup of \<open>times\<close> returns the empty
  string. The first does not: \<open>db.Get\<close> reports \<open>sql.ErrNoRows\<close> on an empty result, and
  \<open>getContextObject\<close> returns that error, for user 2 (whose only turn has no object) and
  for user 3 (who has no turn at all).
\<close>

theorem getContextObject_no_qualifying_turn:
  "getContextObject example_db (Some \<lparr>ID = 2\<rparr>) (example_si [''him'']) ''actors'' [] =
     (Inl ErrNoRows, [(''actors'', 2)])
   \<and> getContextObject example_db (Some \<lparr>ID = 3\<rparr>) (example_si [''it'']) ''objects'' [] =
     (Inl ErrNoRows, [(''objects'', 3)])
   \<and> getContextObject example_db (Some \<lparr>ID = 1\<rparr>) (example_si [''then'']) ''times'' [] =
     (Inr [], [(''times'', 1)])"
  by (simp add: example_db_def getContextObject_def db_Get_def select_column_def Last_def)

section \<open>The starting index of the candidates\<close>

text \<open>
  Where no stem is a preposition, the loop leaves \<open>start\<close> at 0.
\<close>

lemma scan_stems_none:
  "\<forall>i\<in>set is. stems ! i \<noteq> ''at'' \<and> stems ! i \<noteq> ''in'' \<and> stems ! i \<noteq> ''on'' \<Longrightarrow>
   scan_stems stems is start = start"
  by (induction "is" arbitrary: start) simp_all

lemma start_index_none:
  "\<forall>s\<in>set stems. s \<noteq> ''at'' \<and> s \<noteq> ''in'' \<and> s \<noteq> ''on'' \<Longrightarrow> start_index stems = 0"
  unfolding start_index_def by (rule scan_stems_none) simp

text \<open>
  Where a stem is a preposition, \<open>start\<close> ends as the index of the last such stem.
\<close>

lemma scan_stems_append:
  "scan_stems stems (is @ js) start = scan_stems stems js (scan_stems stems is start)"
  by (induction "is" arbitrary: start) simp_all

lemma start_index_last:
  assumes "i < length stems"
    and "stems ! i = ''at'' \<or> stems ! i = ''in'' \<or> stems ! i = ''on''"
    and "\<forall>j. i < j \<and> j < length stems \<longrightarrow>
           stems ! j \<noteq> ''at'' \<and> stems ! j \<noteq> ''in'' \<and> stems ! j \<noteq> ''on''"
  shows "start_index stems = i"
proof -
  have split: "[0..<length stems] = [0..<i] @ i # [Suc i..<length stems]"
  proof -
    have "[0..<i + (length stems - i)] = [0..<i] @ [i..<i + (length stems - i)]"
      by (rule upt_add_eq_append) simp
    moreover have "[i..<length stems] = i # [Suc i..<length stems]"
      using assms(1) by (rule upt_conv_Cons)
    ultimately show ?thesis using assms(1) by simp
  qed
  have rest: "scan_stems stems [Suc i..<length stems] i = i"
    using assms(3) by (intro scan_stems_none) auto
  show ?thesis
    unfolding start_index_def split scan_stems_append using assms(2) rest by auto
qed

text \<open>
  Claim C2. The specification says that candidate generation begins at the index of the
  first occurrence of \<open>at\<close>, \<open>in\<close> or \<open>on\<close>, and at index 0 when there is none. In the
  code the loop does not stop at the first occurrence, so \<open>start\<close> ends as the index of the
  last one: for \<open>in Paris on Monday\<close> it is 2 where the first occurrence is at 0, the
  candidates are \<open>on\<close>, \<open>Monday\<close> and \<open>on Monday\<close>, and the city \<open>Paris\<close>, which is in the
  table, is not found.
\<close>

theorem ExtractCities_start_at_last_preposition:
  "start_index (Stems example_trip) = 2
   \<and> spec_start_index (Stems example_trip) = 0
   \<and> candidates example_trip = [''on'', ''Monday'', ''on Monday'']
   \<and> ExtractCities example_db example_trip = Inr []"
  by code_simp

section \<open>The tokenizer on a word with two marks\<close>

text \<open>
  Claim C5. The specification says that \<open>SentenceFields\<close> isolates the trailing punctuation
  of a word as separate tokens and lower-cases the word. The code drops one byte from the
  end of a word in which it has found a mark, whatever the number of marks: for \<open>what?!\<close>
  it emits both marks and then the word token \<open>what?\<close>, which still carries a mark.
\<close>

theorem SentenceFields_keeps_mark:
  "SentenceFields ''what?!'' = [''?'', ''!'', ''what?'']"
  by code_simp

section \<open>Candidates that match no city\<close>

lemma scan_rows_error: "scan_rows db rows cs = Inl err \<Longrightarrow> scan_fault db = Some err"
  by (induction rows arbitrary: cs) (auto split: option.splits)

text \<open>
  Claim C9. When no city of the country scope has a name among the candidates, and
  neither the query nor the closing of its rows fails, \<open>ExtractCities\<close> returns the empty
  sequence and no error. Whenever it returns an error, that error is one the storage
  reported, for the query, for the scan of a row or for the closing of the rows.
\<close>

theorem ExtractCities_no_match:
  "(query_fault db = None \<and> close_fault db = None
      \<and> list_all (\<lambda>c. CountryCode c = ''US'' \<longrightarrow> \<not> List.member (candidates m) (Name c))
           (cities db)
     \<longrightarrow> ExtractCities db m = Inr [])
   \<and> (ExtractCities db m = Inl err
     \<longrightarrow> query_fault db = Some err \<or> scan_fault db = Some err \<or> close_fault db = Some err)"
proof (intro conjI impI)
  assume a: "query_fault db = None \<and> close_fault db = None
      \<and> list_all (\<lambda>c. CountryCode c = ''US'' \<longrightarrow> \<not> List.member (candidates m) (Name c))
           (cities db)"
  then have "filter (\<lambda>c. CountryCode c = ''US'' \<and> List.member (candidates m) (Name c))
      (cities db) = []"
    by (auto simp: filter_empty_conv list_all_iff)
  with a show "ExtractCities db m = Inr []"
    by (simp add: ExtractCities_def db_Query_def)
next
  assume "ExtractCities db m = Inl err"
  then show "query_fault db = Some err \<or> scan_fault db = Some err \<or> close_fault db = Some err"
    by (auto simp: ExtractCities_def db_Query_def dest: scan_rows_error
        split: option.splits sum.splits)
qed

theorem ExtractCities_no_match_witness:
  "ExtractCities example_db (example_msg None []) = Inr []
   \<and> ExtractCities (example_db\<lparr>query_fault := Some (StorageError ''connection refused'')\<rparr>)
        (example_msg None []) = Inl (StorageError ''connection refused'')
   \<and> (query_fault (example_db\<lparr>query_fault := Some (StorageError ''connection refused'')\<rparr>) =
         Some (StorageError ''connection refused'')
      \<or> scan_fault (example_db\<lparr>query_fault := Some (StorageError ''connection refused'')\<rparr>) =
         Some (StorageError ''connection refused'')
      \<or> close_fault (example_db\<lparr>query_fault := Some (StorageError ''connection refused'')\<rparr>) =
         Some (StorageError ''connection refused''))"
proof (intro conjI)
  have "query_fault example_db = None \<and> close_fault example_db = None
      \<and> list_all (\<lambda>c. CountryCode c = ''US''
            \<longrightarrow> \<not> List.member (candidates (example_msg None [])) (Name c))
           (cities example_db)"
    by code_simp
  with ExtractCities_no_match [of example_db "example_msg None []"]
  show "ExtractCities example_db (example_msg None []) = Inr []"
    by blast
next
  show failed:
    "ExtractCities (example_db\<lparr>query_fault := Some (StorageError ''connection refused'')\<rparr>)
        (example_msg None []) = Inl (StorageError ''connection refused'')"
    by (simp add: ExtractCities_def db_Query_def)
  with ExtractCities_no_match
    [of "example_db\<lparr>query_fault := Some (StorageError ''connection refused'')\<rparr>"
      "example_msg None []" "StorageError ''connection refused''"]
  show "query_fault (example_db\<lparr>query_fault := Some (StorageError ''connection refused'')\<rparr>) =
         Some (StorageError ''connection refused'')
      \<or> scan_fault (example_db\<lparr>query_fault := Some (StorageError ''connection refused'')\<rparr>) =
         Some (StorageError ''connection refused'')
      \<or> close_fault (example_db\<lparr>query_fault := Some (StorageError ''connection refused'')\<rparr>) =
         Some (StorageError ''connection refused'')"
    by blast
qed

end
